theory Spec2Isabelle
  imports Complex_Main
begin

section \<open>Remote analysis client: the values it exchanges\<close>

text \<open>
  An awaited call of the client either resolves with the response data or rejects with an
  error, of which only the message is kept (\<^verbatim>\<open>err.message\<close>).
\<close>

datatype 'a promise = Resolves 'a | Rejects string

text \<open>
  The status payload returned by \<^verbatim>\<open>getAnalysis\<close>. The fields the client reads with a
  fallback (\<^verbatim>\<open>status.error || ...\<close>, \<^verbatim>\<open>statusUpdate.progress || 0\<close>) may be absent.
\<close>

record status_payload =
  status :: string
  progress :: "int option"
  progress_message :: "string option"
  error :: "string option"
  summary :: "(string \<times> int) list option"

text \<open>\<^verbatim>\<open>s || d\<close> on an optional string: absent and empty strings are falsy.\<close>

definition str_or :: "string option \<Rightarrow> string \<Rightarrow> string" where
  "str_or s d = (case s of None \<Rightarrow> d | Some m \<Rightarrow> if m = [] then d else m)"

text \<open>\<^verbatim>\<open>n || 0\<close> on an optional number.\<close>

definition num_or0 :: "int option \<Rightarrow> int" where
  "num_or0 n = (case n of None \<Rightarrow> 0 | Some v \<Rightarrow> v)"

section \<open>pollAnalysis\<close>

text \<open>
  One turn of the \<^verbatim>\<open>while\<close> loop of \<^verbatim>\<open>pollAnalysis\<close>, from the moment the awaited
  \<^verbatim>\<open>getAnalysis\<close> settles up to \<^verbatim>\<open>attempts++\<close>. The caller's state \<open>'s\<close> is what the
  \<^verbatim>\<open>onProgress\<close> callback mutates; \<^verbatim>\<open>onProgress\<close> may be \<^verbatim>\<open>null\<close>.
\<close>

datatype turn = Again | Stop "status_payload promise"

definition call_onProgress :: "(status_payload \<Rightarrow> 's \<Rightarrow> 's) option \<Rightarrow> status_payload \<Rightarrow> 's \<Rightarrow> 's" where
  "call_onProgress onProgress st s = (case onProgress of None \<Rightarrow> s | Some f \<Rightarrow> f st s)"

definition pollAnalysis_turn ::
  "(status_payload \<Rightarrow> 's \<Rightarrow> 's) option \<Rightarrow> status_payload promise \<Rightarrow> 's \<Rightarrow> turn \<times> 's" where
  "pollAnalysis_turn onProgress response s =
     (case response of
        Rejects e \<Rightarrow> (Stop (Rejects e), s)
      | Resolves st \<Rightarrow>
          (let s' = call_onProgress onProgress st s in
           if status st = ''complete'' then (Stop (Resolves st), s')
           else if status st = ''error'' then (Stop (Rejects (str_or (error st) ''Analysis failed'')), s')
           else (Again, s')))"

text \<open>
  The loop. \<open>getAnalysis k\<close> is how the \<open>k\<close>-th status fetch of this run settles
  (counting from 0); the loop awaits each fetch before it issues the next, so the fetch
  issued at \<open>attempts = k\<close> is the \<open>k\<close>-th. The result is how the promise of
  \<^verbatim>\<open>pollAnalysis\<close> settles, the caller's state after the callbacks, and the number of
  status fetches issued. The sleep of \<^verbatim>\<open>pollInterval\<close> ms between two turns has no
  effect on these and is not represented.
\<close>

function pollAnalysis_loop ::
  "(nat \<Rightarrow> status_payload promise) \<Rightarrow> (status_payload \<Rightarrow> 's \<Rightarrow> 's) option \<Rightarrow> int \<Rightarrow> nat \<Rightarrow> 's
     \<Rightarrow> status_payload promise \<times> 's \<times> nat" where
  "pollAnalysis_loop getAnalysis onProgress maxAttempts attempts s =
     (if int attempts < maxAttempts then
        (case pollAnalysis_turn onProgress (getAnalysis attempts) s of
           (Stop r, s') \<Rightarrow> (r, s', Suc attempts)
         | (Again, s') \<Rightarrow> pollAnalysis_loop getAnalysis onProgress maxAttempts (Suc attempts) s')
      else (Rejects ''Analysis timeout'', s, attempts))"
  by pat_completeness auto
termination
  by (relation "measure (\<lambda>(g, f, m, a, s). nat (m - int a))") auto

definition pollAnalysis ::
  "(nat \<Rightarrow> status_payload promise) \<Rightarrow> (status_payload \<Rightarrow> 's \<Rightarrow> 's) option \<Rightarrow> int \<Rightarrow> 's
     \<Rightarrow> status_payload promise \<times> 's \<times> nat" where
  "pollAnalysis getAnalysis onProgress maxAttempts s =
     pollAnalysis_loop getAnalysis onProgress maxAttempts 0 s"

text \<open>A payload whose status is neither of the two terminal ones.\<close>

definition in_progress :: "status_payload \<Rightarrow> bool" where
  "in_progress st = (status st \<noteq> ''complete'' \<and> status st \<noteq> ''error'')"

section \<open>useAnalysis\<close>












section \<open>App: selection and blast radius\<close>

text \<open>
  The object held in \<^verbatim>\<open>selectedFile\<close>: the data of a graph node (\<^verbatim>\<open>id\<close>, \<^verbatim>\<open>label\<close>,
  \<^verbatim>\<open>full_path\<close>, \<^verbatim>\<open>lines\<close>, \<^verbatim>\<open>complexity\<close>, \<^verbatim>\<open>type\<close>), or the object
  \<^verbatim>\<open>handleRiskFileClick\<close> builds, which carries the risk fields as well. A property an
  object does not have is \<open>None\<close>; \<^verbatim>\<open>id\<close>, \<^verbatim>\<open>label\<close> and \<^verbatim>\<open>full_path\<close> are on every
  node the service sends and on every object the risk-list handler builds. The field
  \<^verbatim>\<open>id\<close> is \<open>node_id\<close> here and \<^verbatim>\<open>type\<close> is \<open>kind\<close>.
\<close>

record file_obj =
  node_id :: string
  label :: string
  full_path :: string
  lines :: "int option"
  complexity :: "real option"
  kind :: "string option"
  fo_risk_score :: "real option"
  fo_risk_level :: "string option"
  blast_radius_count :: "int option"

text \<open>An entry of the risk list.\<close>

record risk_file =
  file_path :: string
  risk_score :: real
  risk_level :: string
  blast_radius :: "int option"

text \<open>The object held in \<^verbatim>\<open>blastRadius\<close>: the response of the blast-radius fetch, or the
  object the risk-list handler builds when the fetch fails.\<close>

record blast_result =
  br_file_path :: string
  direct_dependents :: "string list option"
  indirect_dependents :: "string list option"
  total_affected :: int
  br_risk_score :: real
  br_risk_level :: string

record edge_data =
  edge_id :: string
  source :: string
  target :: string
  edge_kind :: string
  is_relative :: bool

text \<open>The graph in Cytoscape format; a node stands for its \<^verbatim>\<open>data\<close> object.\<close>

record graph_elements =
  nodes :: "file_obj list option"
  edges :: "edge_data list option"

record graph_data =
  elements :: "graph_elements option"

record app =
  graphData :: "graph_data option"
  riskFiles :: "risk_file list"
  selectedFile :: "file_obj option"
  blastRadius :: "blast_result option"
  highlightedNodes :: "string list"
  activeTab :: string

text \<open>\<^verbatim>\<open>xs || []\<close> on an optional array (an empty array is truthy and is returned as it is).\<close>

definition list_or :: "string list option \<Rightarrow> string list" where
  "list_or xs = (case xs of None \<Rightarrow> [] | Some ys \<Rightarrow> ys)"

text \<open>\<^verbatim>\<open>path.split('/').pop()\<close>: what follows the last slash.\<close>

definition last_segment :: "string \<Rightarrow> string" where
  "last_segment path = rev (takeWhile (\<lambda>c. c \<noteq> CHR ''/'') (rev path))"

text \<open>\<^verbatim>\<open>Object.assign(fileData, node.data)\<close>: every property the node data has replaces
  that of \<open>fileData\<close>.\<close>

definition prop_or :: "'a option \<Rightarrow> 'a option \<Rightarrow> 'a option" where
  "prop_or new old = (case new of None \<Rightarrow> old | Some v \<Rightarrow> Some v)"

definition object_assign :: "file_obj \<Rightarrow> file_obj \<Rightarrow> file_obj" where
  "object_assign fileData n =
     \<lparr>node_id = node_id n, label = label n, full_path = full_path n,
      lines = prop_or (lines n) (lines fileData),
      complexity = prop_or (complexity n) (complexity fileData),
      kind = prop_or (kind n) (kind fileData),
      fo_risk_score = prop_or (fo_risk_score n) (fo_risk_score fileData),
      fo_risk_level = prop_or (fo_risk_level n) (fo_risk_level fileData),
      blast_radius_count = prop_or (blast_radius_count n) (blast_radius_count fileData)\<rparr>"

text \<open>The object \<^verbatim>\<open>handleRiskFileClick\<close> selects, built before its first await.\<close>

definition graph_nodes :: "graph_data option \<Rightarrow> file_obj list option" where
  "graph_nodes gd =
     (case gd of None \<Rightarrow> None
      | Some g \<Rightarrow> (case elements g of None \<Rightarrow> None | Some els \<Rightarrow> nodes els))"

definition make_fileData :: "risk_file \<Rightarrow> graph_data option \<Rightarrow> file_obj" where
  "make_fileData file gd =
     (let fileData = \<lparr>node_id = file_path file, label = last_segment (file_path file),
                       full_path = file_path file, lines = None, complexity = None, kind = None,
                       fo_risk_score = Some (risk_score file), fo_risk_level = Some (risk_level file),
                       blast_radius_count = blast_radius file\<rparr>
      in case graph_nodes gd of
           None \<Rightarrow> fileData
         | Some ns \<Rightarrow>
             (case find (\<lambda>n. full_path n = file_path file) ns of
                None \<Rightarrow> fileData
              | Some n \<Rightarrow> object_assign fileData n))"

text \<open>
  A handler suspended at \<^verbatim>\<open>await getBlastRadius(...)\<close>, with the variables its
  continuation uses: \<^verbatim>\<open>node\<close> in \<^verbatim>\<open>handleNodeClick\<close>, \<^verbatim>\<open>file\<close> and \<^verbatim>\<open>fileData\<close> in
  \<^verbatim>\<open>handleRiskFileClick\<close>.
\<close>

datatype pending = NodePending file_obj | RiskPending risk_file file_obj

text \<open>The file object the suspended handler selected.\<close>

fun selected_by :: "pending \<Rightarrow> file_obj" where
  "selected_by (NodePending node) = node"
| "selected_by (RiskPending file fileData) = fileData"

text \<open>\<^verbatim>\<open>handleNodeClick\<close> up to its await: it always issues the fetch.\<close>

definition handleNodeClick :: "file_obj \<Rightarrow> app \<Rightarrow> app \<times> pending option" where
  "handleNodeClick node a =
     (a\<lparr>selectedFile := Some node, activeTab := ''details''\<rparr>, Some (NodePending node))"

text \<open>\<^verbatim>\<open>handleNodeClick\<close> from the settling of the fetch to its end.\<close>

definition handleNodeClick_resume :: "file_obj \<Rightarrow> blast_result promise \<Rightarrow> app \<Rightarrow> app" where
  "handleNodeClick_resume node r a =
     (case r of
        Resolves blast \<Rightarrow>
          a\<lparr>blastRadius := Some blast,
            highlightedNodes :=
              node_id node # list_or (direct_dependents blast) @ list_or (indirect_dependents blast)\<rparr>
      | Rejects e \<Rightarrow> a\<lparr>blastRadius := None\<rparr>)"

text \<open>A truthy \<^verbatim>\<open>analysisId\<close>: present and not the empty string.\<close>

definition truthy_id :: "string option \<Rightarrow> bool" where
  "truthy_id aid = (case aid of None \<Rightarrow> False | Some i \<Rightarrow> i \<noteq> [])"

text \<open>\<^verbatim>\<open>handleRiskFileClick\<close> up to its await; without an \<^verbatim>\<open>analysisId\<close> no fetch is issued.\<close>

definition handleRiskFileClick :: "string option \<Rightarrow> risk_file \<Rightarrow> app \<Rightarrow> app \<times> pending option" where
  "handleRiskFileClick aid file a =
     (let fileData = make_fileData file (graphData a) in
      (a\<lparr>selectedFile := Some fileData, activeTab := ''details''\<rparr>,
       if truthy_id aid then Some (RiskPending file fileData) else None))"

text \<open>\<^verbatim>\<open>handleRiskFileClick\<close> from the settling of the fetch to its end.\<close>

definition handleRiskFileClick_resume :: "risk_file \<Rightarrow> file_obj \<Rightarrow> blast_result promise \<Rightarrow> app \<Rightarrow> app" where
  "handleRiskFileClick_resume file fileData r a =
     (case r of
        Resolves blast \<Rightarrow>
          a\<lparr>blastRadius := Some blast,
            highlightedNodes :=
              node_id fileData # list_or (direct_dependents blast) @ list_or (indirect_dependents blast)\<rparr>
      | Rejects e \<Rightarrow>
          a\<lparr>blastRadius := Some \<lparr>br_file_path = file_path file,
                                  direct_dependents = Some [], indirect_dependents = Some [],
                                  total_affected = num_or0 (blast_radius file),
                                  br_risk_score = risk_score file,
                                  br_risk_level = risk_level file\<rparr>\<rparr>)"

text \<open>A selection is a click on a graph node or on an entry of the risk list.\<close>

datatype selection = GraphNode file_obj | RiskEntry risk_file

fun select :: "string option \<Rightarrow> selection \<Rightarrow> app \<Rightarrow> app \<times> pending option" where
  "select aid (GraphNode node) a = handleNodeClick node a"
| "select aid (RiskEntry file) a = handleRiskFileClick aid file a"

text \<open>The blast-radius fetch of a suspended handler settles, and the handler runs to its end.\<close>

fun settle :: "pending \<Rightarrow> blast_result promise \<Rightarrow> app \<Rightarrow> app" where
  "settle (NodePending node) r a = handleNodeClick_resume node r a"
| "settle (RiskPending file fileData) r a = handleRiskFileClick_resume file fileData r a"

text \<open>The file object a selection puts into \<^verbatim>\<open>selectedFile\<close>.\<close>

fun chosen :: "selection \<Rightarrow> app \<Rightarrow> file_obj" where
  "chosen (GraphNode node) a = node"
| "chosen (RiskEntry file) a = make_fileData file (graphData a)"

text \<open>
  The application together with the handlers suspended at their fetch, in the order the
  fetches were issued. A selection runs its handler up to the await; the settling of the
  \<open>i\<close>-th fetch issued resumes the handler that awaits it. Fetches may settle in any order.
\<close>

datatype app_event =
    Select "string option" selection
  | Settles nat "blast_result promise"

fun app_step :: "app_event \<Rightarrow> app \<times> pending list \<Rightarrow> app \<times> pending list" where
  "app_step (Select aid S) (a, ps) =
     (case select aid S a of
        (a', None) \<Rightarrow> (a', ps)
      | (a', Some p) \<Rightarrow> (a', ps @ [p]))"
| "app_step (Settles i r) (a, ps) =
     (if i < length ps then (settle (ps ! i) r a, ps) else (a, ps))"

section \<open>GraphViewer\<close>

subsection \<open>The rendering engine\<close>

text \<open>
  The engine is the Cytoscape.js instance. Of its documented behaviour the component relies
  on the following, which is all this model keeps: elements carry a set of classes, changed
  by \<^verbatim>\<open>addClass\<close> and \<^verbatim>\<open>removeClass\<close>; \<^verbatim>\<open>nodes.connectedEdges()\<close> is the collection of the
  edges connected to a node of \<^verbatim>\<open>nodes\<close>; \<^verbatim>\<open>cy.zoom(level)\<close> sets the zoom level, kept within
  \<^verbatim>\<open>minZoom\<close> and \<^verbatim>\<open>maxZoom\<close>; \<^verbatim>\<open>cy.layout(options).run()\<close> positions the nodes; and
  \<^verbatim>\<open>cy.destroy()\<close> ends the instance. Numbers are real numbers: the rounding of the
  floating-point arithmetic is not represented. The elements are taken as the graph data
  gives them: the service uses each id once and names existing nodes in every edge.
\<close>

datatype cls = Highlighted | Dimmed

record cy_node =
  ndata :: file_obj
  nclasses :: "cls set"

record cy_edge =
  edata :: edge_data
  eclasses :: "cls set"

datatype cfg = Flag bool | Num real | Undefined

type_synonym layout_options = "string \<times> (string \<times> cfg) list"

record engine =
  inst_id :: nat
  cy_nodes :: "cy_node list"
  cy_edges :: "cy_edge list"
  zoom :: real
  minZoom :: real
  maxZoom :: real
  layout_runs :: "layout_options list"

definition getLayoutConfig :: "string \<Rightarrow> (string \<times> cfg) list" where
  "getLayoutConfig layoutName =
     (let cose_bilkent = [(''animate'', Flag True), (''animationDuration'', Num 500),
                          (''nodeDimensionsIncludeLabels'', Flag True), (''idealEdgeLength'', Num 100),
                          (''nodeRepulsion'', Num 4500), (''gravity'', Num 0.1)];
          configs = [(''cose-bilkent'', cose_bilkent),
                     (''circle'', [(''animate'', Flag True), (''animationDuration'', Num 500),
                                   (''avoidOverlap'', Flag True), (''radius'', Num 200)]),
                     (''grid'', [(''animate'', Flag True), (''animationDuration'', Num 500),
                                 (''avoidOverlap'', Flag True), (''rows'', Undefined), (''cols'', Undefined)]),
                     (''breadthfirst'', [(''animate'', Flag True), (''animationDuration'', Num 500),
                                         (''directed'', Flag True), (''spacingFactor'', Num 1.5)])]
      in case map_of configs layoutName of None \<Rightarrow> cose_bilkent | Some c \<Rightarrow> c)"

text \<open>
  The constructor call of the build effect: the elements of the graph without classes,
  the zoom range 0.1 to 3, and the initial layout run. \<open>n\<close> names the new instance. The
  zoom level starts at Cytoscape's default 1.
\<close>

definition cytoscape :: "nat \<Rightarrow> graph_elements \<Rightarrow> string \<Rightarrow> engine" where
  "cytoscape n els layoutName =
     \<lparr>inst_id = n,
      cy_nodes = map (\<lambda>d. \<lparr>ndata = d, nclasses = {}\<rparr>) (case nodes els of None \<Rightarrow> [] | Some ns \<Rightarrow> ns),
      cy_edges = map (\<lambda>d. \<lparr>edata = d, eclasses = {}\<rparr>) (case edges els of None \<Rightarrow> [] | Some es \<Rightarrow> es),
      zoom = 1, minZoom = 0.1, maxZoom = 3,
      layout_runs = [(layoutName, getLayoutConfig layoutName)]\<rparr>"

definition cy_zoom :: "real \<Rightarrow> engine \<Rightarrow> engine" where
  "cy_zoom level cy = cy\<lparr>zoom := min (maxZoom cy) (max (minZoom cy) level)\<rparr>"

definition cy_layout_run :: "layout_options \<Rightarrow> engine \<Rightarrow> engine" where
  "cy_layout_run opts cy = cy\<lparr>layout_runs := layout_runs cy @ [opts]\<rparr>"

definition connectedEdge :: "string list \<Rightarrow> cy_edge \<Rightarrow> bool" where
  "connectedEdge ids e = (source (edata e) \<in> set ids \<or> target (edata e) \<in> set ids)"


subsection \<open>The component\<close>

text \<open>
  The component instance: the ref \<^verbatim>\<open>cyRef\<close>, the state \<^verbatim>\<open>layout\<close>, and what React keeps
  for its two effects: the dependencies of their last run and whether the last run of the
  build effect returned its cleanup function. \<open>constructed\<close> and \<open>destroyed\<close> count the
  constructor and \<^verbatim>\<open>destroy\<close> calls, \<open>live\<close> lists the instances constructed and not yet
  destroyed.

  React compares dependencies by identity, so an object-valued prop comes with a number
  that stands for the identity of the object. \<open>container\<close> tells whether
  \<^verbatim>\<open>containerRef.current\<close> is set.
\<close>

record viewer_props =
  container :: bool
  p_graphData :: "(nat \<times> graph_data) option"
  p_onNodeClick :: "nat option"
  p_highlightedNodes :: "nat \<times> string list"

record viewer =
  cyRef :: "engine option"
  layout :: string
  build_deps :: "((nat \<times> graph_data) option \<times> string \<times> nat option) option"
  build_cleanup :: bool
  highlight_deps :: "(nat \<times> string list) option"
  constructed :: nat
  destroyed :: nat
  live :: "nat list"

definition initial_viewer :: viewer where
  "initial_viewer = \<lparr>cyRef = None, layout = ''cose-bilkent'', build_deps = None, build_cleanup = False,
                       highlight_deps = None, constructed = 0, destroyed = 0, live = []\<rparr>"

text \<open>The elements the build effect constructs an engine from, if it does.\<close>

definition renderable :: "viewer_props \<Rightarrow> graph_elements option" where
  "renderable props =
     (if \<not> container props then None
      else case p_graphData props of
             None \<Rightarrow> None
           | Some (i, gd) \<Rightarrow>
               (case elements gd of
                  None \<Rightarrow> None
                | Some els \<Rightarrow>
                    (case nodes els of
                       None \<Rightarrow> None
                     | Some ns \<Rightarrow> if length ns = 0 then None else Some els)))"

text \<open>The body of the build effect. It returns its cleanup only when it constructs.\<close>

definition build_effect :: "viewer_props \<Rightarrow> viewer \<Rightarrow> viewer" where
  "build_effect props v =
     (case renderable props of
        None \<Rightarrow> v\<lparr>build_cleanup := False\<rparr>
      | Some els \<Rightarrow>
          v\<lparr>cyRef := Some (cytoscape (constructed v) els (layout v)),
            constructed := Suc (constructed v),
            live := constructed v # live v,
            build_cleanup := True\<rparr>)"

text \<open>The cleanup function the build effect returns.\<close>

definition build_effect_cleanup :: "viewer \<Rightarrow> viewer" where
  "build_effect_cleanup v =
     (case cyRef v of
        None \<Rightarrow> v
      | Some cy \<Rightarrow> v\<lparr>cyRef := None, destroyed := Suc (destroyed v), live := removeAll (inst_id cy) (live v)\<rparr>)"

text \<open>The highlight effect, on the engine and on the component.\<close>

definition removeClass_n :: "cls set \<Rightarrow> cy_node \<Rightarrow> cy_node" where
  "removeClass_n cs n = n\<lparr>nclasses := nclasses n - cs\<rparr>"

definition addClass_n :: "cls \<Rightarrow> cy_node \<Rightarrow> cy_node" where
  "addClass_n c n = n\<lparr>nclasses := insert c (nclasses n)\<rparr>"

definition removeClass_e :: "cls set \<Rightarrow> cy_edge \<Rightarrow> cy_edge" where
  "removeClass_e cs e = e\<lparr>eclasses := eclasses e - cs\<rparr>"

definition addClass_e :: "cls \<Rightarrow> cy_edge \<Rightarrow> cy_edge" where
  "addClass_e c e = e\<lparr>eclasses := insert c (eclasses e)\<rparr>"

definition apply_highlight :: "string list \<Rightarrow> engine \<Rightarrow> engine" where
  "apply_highlight highlightedNodes' cy =
     (let ns0 = map (removeClass_n {Highlighted, Dimmed}) (cy_nodes cy);
          es0 = map (removeClass_e {Highlighted, Dimmed}) (cy_edges cy)
      in if length highlightedNodes' > 0 then
           (let highlighted = map (\<lambda>n. node_id (ndata n))
                                 (filter (\<lambda>n. node_id (ndata n) \<in> set highlightedNodes') ns0);
                ns1 = map (\<lambda>n. if node_id (ndata n) \<in> set highlighted then addClass_n Highlighted n else n) ns0;
                ns2 = map (\<lambda>n. if node_id (ndata n) \<in> set highlighted then n else addClass_n Dimmed n) ns1;
                es1 = map (addClass_e Dimmed) es0;
                es2 = map (\<lambda>e. if connectedEdge highlighted e
                                then addClass_e Highlighted (removeClass_e {Dimmed} e) else e) es1
            in cy\<lparr>cy_nodes := ns2, cy_edges := es2\<rparr>)
         else cy\<lparr>cy_nodes := ns0, cy_edges := es0\<rparr>)"

definition highlight_effect :: "string list \<Rightarrow> viewer \<Rightarrow> viewer" where
  "highlight_effect highlightedNodes' v =
     (case cyRef v of
        None \<Rightarrow> v
      | Some cy \<Rightarrow> v\<lparr>cyRef := Some (apply_highlight highlightedNodes' cy)\<rparr>)"

text \<open>
  React commits a render: of the effects whose dependencies changed (all of them on
  mount) it first runs the cleanups, then the bodies, in the order of their declaration.
\<close>

definition commit :: "viewer_props \<Rightarrow> viewer \<Rightarrow> viewer" where
  "commit props v =
     (let bdeps = Some (p_graphData props, layout v, p_onNodeClick props);
          hdeps = Some (p_highlightedNodes props);
          rebuild = (build_deps v \<noteq> bdeps);
          v1 = (if rebuild \<and> build_cleanup v then build_effect_cleanup v else v);
          v2 = (if rebuild then build_effect props v1 else v1);
          v3 = (if highlight_deps v \<noteq> hdeps then highlight_effect (snd (p_highlightedNodes props)) v2 else v2)
      in v3\<lparr>build_deps := bdeps, highlight_deps := hdeps\<rparr>)"


text \<open>The controls.\<close>

definition handleZoomIn :: "viewer \<Rightarrow> viewer" where
  "handleZoomIn v = (case cyRef v of None \<Rightarrow> v | Some cy \<Rightarrow> v\<lparr>cyRef := Some (cy_zoom (zoom cy * 1.2) cy)\<rparr>)"

definition handleZoomOut :: "viewer \<Rightarrow> viewer" where
  "handleZoomOut v = (case cyRef v of None \<Rightarrow> v | Some cy \<Rightarrow> v\<lparr>cyRef := Some (cy_zoom (zoom cy * 0.8) cy)\<rparr>)"

text \<open>
  \<^verbatim>\<open>handleChangeLayout\<close>: \<^verbatim>\<open>setLayout\<close>, then the layout run on the current instance.
  The new \<^verbatim>\<open>layout\<close> state is what the next render, which \<^verbatim>\<open>setLayout\<close> schedules
  when the value differs, commits with.
\<close>

definition handleChangeLayout :: "string \<Rightarrow> viewer \<Rightarrow> viewer" where
  "handleChangeLayout newLayout v =
     (let v1 = v\<lparr>layout := newLayout\<rparr>
      in case cyRef v1 of
           None \<Rightarrow> v1
         | Some cy \<Rightarrow> v1\<lparr>cyRef := Some (cy_layout_run (newLayout, getLayoutConfig newLayout) cy)\<rparr>)"




section \<open>Concrete runs\<close>

text \<open>Status payloads and fetch sequences used to exercise the polling loop.\<close>

definition processing_payload :: "int \<Rightarrow> status_payload" where
  "processing_payload n =
     \<lparr>status = ''processing'', progress = Some n, progress_message = None, error = None, summary = None\<rparr>"

definition complete_payload :: status_payload where
  "complete_payload =
     \<lparr>status = ''complete'', progress = Some 100, progress_message = None, error = None,
      summary = Some [(''total_files'', 10)]\<rparr>"

definition error_payload :: status_payload where
  "error_payload =
     \<lparr>status = ''error'', progress = None, progress_message = None, error = Some ''Clone failed'',
      summary = None\<rparr>"

text \<open>Two polls in progress at 30 and 70, then complete.\<close>

definition run_complete :: "nat \<Rightarrow> status_payload" where
  "run_complete i = (if i = 0 then processing_payload 30 else if i = 1 then processing_payload 70
                     else complete_payload)"

text \<open>One poll in progress, then the server reports an error.\<close>

definition run_error :: "nat \<Rightarrow> status_payload" where
  "run_error i = (if i = 0 then processing_payload 30 else error_payload)"

text \<open>A job that never leaves \<^verbatim>\<open>processing\<close>.\<close>

definition run_stuck :: "nat \<Rightarrow> status_payload" where
  "run_stuck i = processing_payload 30"

text \<open>The second status fetch fails in the transport; the third would have reported completion.\<close>

definition run_blip :: "nat \<Rightarrow> status_payload promise" where
  "run_blip i = (if i = 0 then Resolves (processing_payload 30)
                 else if i = 1 then Rejects ''Network Error''
                 else Resolves complete_payload)"

text \<open>The same sequences as promises that all resolve.\<close>

definition resolving :: "(nat \<Rightarrow> status_payload) \<Rightarrow> nat \<Rightarrow> status_payload promise" where
  "resolving p i = Resolves (p i)"

text \<open>An \<^verbatim>\<open>onProgress\<close> callback that records the payloads it is called with.\<close>

definition record_payload :: "status_payload \<Rightarrow> status_payload list \<Rightarrow> status_payload list" where
  "record_payload st seen = seen @ [st]"



text \<open>Two files of a small project, as graph nodes, risk entries and blast-radius responses.\<close>

definition node_core :: file_obj where
  "node_core = \<lparr>node_id = ''lib/core.py'', label = ''core.py'', full_path = ''lib/core.py'',
                 lines = Some 150, complexity = Some 23.5, kind = Some ''module'',
                 fo_risk_score = None, fo_risk_level = None, blast_radius_count = None\<rparr>"

definition node_util :: file_obj where
  "node_util = \<lparr>node_id = ''lib/util.py'', label = ''util.py'', full_path = ''lib/util.py'',
                 lines = Some 40, complexity = Some 3, kind = Some ''module'',
                 fo_risk_score = None, fo_risk_level = None, blast_radius_count = None\<rparr>"

definition risk_core :: risk_file where
  "risk_core = \<lparr>file_path = ''lib/core.py'', risk_score = 87.3, risk_level = ''high'', blast_radius = Some 4\<rparr>"

definition blast_core :: blast_result where
  "blast_core = \<lparr>br_file_path = ''lib/core.py'', direct_dependents = Some [''app.py''],
                  indirect_dependents = Some [''cli.py''], total_affected = 4,
                  br_risk_score = 87.3, br_risk_level = ''high''\<rparr>"

definition blast_util :: blast_result where
  "blast_util = \<lparr>br_file_path = ''lib/util.py'', direct_dependents = Some [''lib/core.py''],
                  indirect_dependents = None, total_affected = 1,
                  br_risk_score = 12, br_risk_level = ''low''\<rparr>"

definition edge_core_util :: edge_data where
  "edge_core_util = \<lparr>edge_id = ''core-util'', source = ''lib/core.py'', target = ''lib/util.py'',
                      edge_kind = ''from'', is_relative = False\<rparr>"

definition small_elements :: graph_elements where
  "small_elements = \<lparr>nodes = Some [node_core, node_util], edges = Some [edge_core_util]\<rparr>"

definition small_graph :: graph_data where
  "small_graph = \<lparr>elements = Some small_elements\<rparr>"

text \<open>The application after a completed analysis of that project.\<close>

definition loaded_app :: app where
  "loaded_app = \<lparr>graphData = Some small_graph, riskFiles = [risk_core], selectedFile = None,
                   blastRadius = None, highlightedNodes = [], activeTab = ''risk''\<rparr>"

text \<open>The props the application renders the viewer with, before any selection.\<close>

definition small_props :: viewer_props where
  "small_props = \<lparr>container = True, p_graphData = Some (0, small_graph), p_onNodeClick = Some 0,
                    p_highlightedNodes = (0, [])\<rparr>"



text \<open>The viewer mounted on the small graph.\<close>

definition mounted_viewer :: viewer where
  "mounted_viewer = commit small_props initial_viewer"

section \<open>Properties of the polling loop\<close>

declare pollAnalysis_loop.simps [simp del]

lemma turn_in_progress:
  "in_progress st \<Longrightarrow> pollAnalysis_turn cb (Resolves st) s = (Again, call_onProgress cb st s)"
  by (simp add: pollAnalysis_turn_def in_progress_def Let_def)

text \<open>A stretch of fetches that resolve in progress is walked through, the callback applied to each.\<close>

lemma loop_skip:
  assumes "\<forall>i. a \<le> i \<and> i < k \<longrightarrow> g i = Resolves (p i) \<and> in_progress (p i)"
    and "a \<le> k" and "int k \<le> m"
  shows "pollAnalysis_loop g cb m a s =
         pollAnalysis_loop g cb m k (fold (call_onProgress cb) (map p [a..<k]) s)"
  using assms
proof (induction "k - a" arbitrary: a s)
  case 0
  then show ?case by simp
next
  case (Suc d)
  then have lt: "a < k" by simp
  from Suc.prems lt have ga: "g a = Resolves (p a)" and nt: "in_progress (p a)" by auto
  have am: "int a < m" using lt Suc.prems(3) by simp
  have IH: "pollAnalysis_loop g cb m (Suc a) (call_onProgress cb (p a) s) =
        pollAnalysis_loop g cb m k (fold (call_onProgress cb) (map p [Suc a..<k]) (call_onProgress cb (p a) s))"
    using Suc.hyps(1)[of "Suc a"] Suc.hyps(2) Suc.prems lt by auto
  have "pollAnalysis_loop g cb m a s = pollAnalysis_loop g cb m (Suc a) (call_onProgress cb (p a) s)"
    using am ga nt by (subst pollAnalysis_loop.simps) (simp add: turn_in_progress)
  also note IH
  finally show ?case using lt by (simp add: upt_conv_Cons)
qed

lemma loop_stop_complete:
  assumes "int k < m" "g k = Resolves st" "status st = ''complete''"
  shows "pollAnalysis_loop g cb m k s = (Resolves st, call_onProgress cb st s, Suc k)"
  using assms by (subst pollAnalysis_loop.simps) (simp add: pollAnalysis_turn_def Let_def)

lemma loop_stop_error:
  assumes "int k < m" "g k = Resolves st" "status st = ''error''"
  shows "pollAnalysis_loop g cb m k s =
     (Rejects (str_or (error st) ''Analysis failed''), call_onProgress cb st s, Suc k)"
  using assms by (subst pollAnalysis_loop.simps) (simp add: pollAnalysis_turn_def Let_def)

lemma loop_stop_reject:
  assumes "int k < m" "g k = Rejects e"
  shows "pollAnalysis_loop g cb m k s = (Rejects e, s, Suc k)"
  using assms by (subst pollAnalysis_loop.simps) (simp add: pollAnalysis_turn_def Let_def)

lemma loop_exhausted:
  assumes "\<not> int k < m"
  shows "pollAnalysis_loop g cb m k s = (Rejects ''Analysis timeout'', s, k)"
  using assms by (subst pollAnalysis_loop.simps) simp

lemma poll_prefix:
  assumes "int k \<le> m" and "\<forall>i<k. g i = Resolves (p i) \<and> in_progress (p i)"
  shows "pollAnalysis g cb m s =
         pollAnalysis_loop g cb m k (fold (call_onProgress cb) (map p [0..<k]) s)"
  unfolding pollAnalysis_def using assms by (intro loop_skip) auto

lemma poll_complete:
  assumes "int k < m" and "\<forall>i<k. in_progress (p i)" and "status (p k) = ''complete''"
  shows "pollAnalysis (resolving p) cb m s =
         (Resolves (p k), fold (call_onProgress cb) (map p [0..<Suc k]) s, Suc k)"
proof -
  have "pollAnalysis (resolving p) cb m s =
        pollAnalysis_loop (resolving p) cb m k (fold (call_onProgress cb) (map p [0..<k]) s)"
    using assms by (intro poll_prefix) (auto simp: resolving_def)
  also have "\<dots> = (Resolves (p k), call_onProgress cb (p k) (fold (call_onProgress cb) (map p [0..<k]) s), Suc k)"
    using assms by (intro loop_stop_complete) (auto simp: resolving_def)
  finally show ?thesis by simp
qed

lemma poll_error:
  assumes "int k < m" and "\<forall>i<k. in_progress (p i)" and "status (p k) = ''error''"
  shows "pollAnalysis (resolving p) cb m s =
         (Rejects (str_or (error (p k)) ''Analysis failed''),
          fold (call_onProgress cb) (map p [0..<Suc k]) s, Suc k)"
proof -
  have "pollAnalysis (resolving p) cb m s =
        pollAnalysis_loop (resolving p) cb m k (fold (call_onProgress cb) (map p [0..<k]) s)"
    using assms by (intro poll_prefix) (auto simp: resolving_def)
  also have "\<dots> = (Rejects (str_or (error (p k)) ''Analysis failed''),
                    call_onProgress cb (p k) (fold (call_onProgress cb) (map p [0..<k]) s), Suc k)"
    using assms by (intro loop_stop_error) (auto simp: resolving_def)
  finally show ?thesis by simp
qed

lemma poll_timeout:
  assumes "\<forall>i. int i < m \<longrightarrow> in_progress (p i)"
  shows "pollAnalysis (resolving p) cb m s =
         (Rejects ''Analysis timeout'', fold (call_onProgress cb) (map p [0..<nat m]) s, nat m)"
proof (cases "0 \<le> m")
  case True
  have "pollAnalysis (resolving p) cb m s =
        pollAnalysis_loop (resolving p) cb m (nat m) (fold (call_onProgress cb) (map p [0..<nat m]) s)"
    using assms True by (intro poll_prefix) (auto simp: resolving_def)
  then show ?thesis using True by (simp add: loop_exhausted)
next
  case False
  then show ?thesis by (simp add: pollAnalysis_def loop_exhausted)
qed

text \<open>
  Claim C3. When every status fetch resolves, \<^verbatim>\<open>pollAnalysis\<close> fetches until the first
  terminal payload, and \<^verbatim>\<open>onProgress\<close> has then been called with each payload fetched, in
  order, the terminal one included. If that payload, the \<open>k\<close>-th with \<open>k < maxAttempts\<close>, is
  \<^verbatim>\<open>complete\<close>, it is returned; if it is \<^verbatim>\<open>error\<close>, the call rejects with the server's
  error message (with \<^verbatim>\<open>Analysis failed\<close> when the payload carries none); after
  \<open>maxAttempts\<close> payloads in progress it rejects with \<^verbatim>\<open>Analysis timeout\<close>. In each case
  the number of fetches issued is the number of payloads received.
\<close>

theorem pollAnalysis_contract:
  "(int k < m \<and> (\<forall>i<k. in_progress (p i)) \<and> status (p k) = ''complete'' \<longrightarrow>
      pollAnalysis (resolving p) cb m s =
        (Resolves (p k), fold (call_onProgress cb) (map p [0..<Suc k]) s, Suc k))
   \<and> (int k < m \<and> (\<forall>i<k. in_progress (p i)) \<and> status (p k) = ''error'' \<longrightarrow>
      pollAnalysis (resolving p) cb m s =
        (Rejects (str_or (error (p k)) ''Analysis failed''),
         fold (call_onProgress cb) (map p [0..<Suc k]) s, Suc k)
      \<and> (\<forall>msg. error (p k) = Some msg \<and> msg \<noteq> [] \<longrightarrow>
             fst (pollAnalysis (resolving p) cb m s) = Rejects msg))
   \<and> ((\<forall>i. int i < m \<longrightarrow> in_progress (p i)) \<longrightarrow>
      pollAnalysis (resolving p) cb m s =
        (Rejects ''Analysis timeout'', fold (call_onProgress cb) (map p [0..<nat m]) s, nat m))"
  using poll_complete[of k m p cb s] poll_error[of k m p cb s] poll_timeout[of m p cb s]
  by (auto simp: str_or_def)

lemma in_progress_processing: "in_progress (processing_payload n)"
  by (simp add: in_progress_def processing_payload_def)

text \<open>The three cases at the runs \<open>run_complete\<close>, \<open>run_error\<close> and \<open>run_stuck\<close>.\<close>

theorem pollAnalysis_contract_witness:
  "pollAnalysis (resolving run_complete) (Some record_payload) 150 [] =
     (Resolves complete_payload, [processing_payload 30, processing_payload 70, complete_payload], 3)
   \<and> pollAnalysis (resolving run_error) (Some record_payload) 150 [] =
     (Rejects ''Clone failed'', [processing_payload 30, error_payload], 2)
   \<and> pollAnalysis (resolving run_stuck) (Some record_payload) 3 [] =
     (Rejects ''Analysis timeout'', [processing_payload 30, processing_payload 30, processing_payload 30], 3)"
proof -
  have c: "int 2 < 150 \<and> (\<forall>i<2. in_progress (run_complete i)) \<and> status (run_complete 2) = ''complete''"
    by (auto simp: run_complete_def in_progress_processing complete_payload_def)
  have e: "int 1 < 150 \<and> (\<forall>i<1. in_progress (run_error i)) \<and> status (run_error 1) = ''error''"
    by (auto simp: run_error_def in_progress_processing error_payload_def)
  have t: "\<forall>i. int i < 3 \<longrightarrow> in_progress (run_stuck i)"
    by (simp add: run_stuck_def in_progress_processing)
  have lc: "fold (call_onProgress (Some record_payload)) (map run_complete [0..<Suc 2]) [] =
            [processing_payload 30, processing_payload 70, complete_payload]"
    by (simp add: upt_rec call_onProgress_def record_payload_def run_complete_def)
  have le: "fold (call_onProgress (Some record_payload)) (map run_error [0..<Suc 1]) [] =
            [processing_payload 30, error_payload]"
    by (simp add: upt_rec call_onProgress_def record_payload_def run_error_def)
  have lt: "fold (call_onProgress (Some record_payload)) (map run_stuck [0..<nat 3]) [] =
            [processing_payload 30, processing_payload 30, processing_payload 30]"
    by (simp add: upt_rec call_onProgress_def record_payload_def run_stuck_def)
  have me: "str_or (error (run_error 1)) ''Analysis failed'' = ''Clone failed''"
    by (simp add: run_error_def error_payload_def str_or_def)
  have "pollAnalysis (resolving run_complete) (Some record_payload) 150 [] =
     (Resolves (run_complete 2), fold (call_onProgress (Some record_payload)) (map run_complete [0..<Suc 2]) [], Suc 2)"
    using pollAnalysis_contract[of 2 150 run_complete "Some record_payload" "[]"] c by blast
  moreover have "pollAnalysis (resolving run_error) (Some record_payload) 150 [] =
     (Rejects (str_or (error (run_error 1)) ''Analysis failed''),
      fold (call_onProgress (Some record_payload)) (map run_error [0..<Suc 1]) [], Suc 1)"
    using pollAnalysis_contract[of 1 150 run_error "Some record_payload" "[]"] e by blast
  moreover have "pollAnalysis (resolving run_stuck) (Some record_payload) 3 [] =
     (Rejects ''Analysis timeout'', fold (call_onProgress (Some record_payload)) (map run_stuck [0..<nat 3]) [], nat 3)"
    using pollAnalysis_contract[of 0 3 run_stuck "Some record_payload" "[]"] t by blast
  ultimately show ?thesis
    unfolding lc le lt me by (simp add: run_complete_def)
qed

text \<open>
  Claim C4, as the code has it. A status fetch that rejects is not retried: it ends
  \<^verbatim>\<open>pollAnalysis\<close> at once, whatever is left of the attempt budget. The call rejects with
  the error of that fetch, \<^verbatim>\<open>onProgress\<close> has been called for the payloads before it
  only, and no further fetch is issued.
\<close>

theorem pollAnalysis_fetch_failure_ends_run:
  assumes "int k < m" and "\<forall>i<k. g i = Resolves (p i) \<and> in_progress (p i)" and "g k = Rejects e"
  shows "pollAnalysis g cb m s = (Rejects e, fold (call_onProgress cb) (map p [0..<k]) s, Suc k)"
proof -
  have "pollAnalysis g cb m s = pollAnalysis_loop g cb m k (fold (call_onProgress cb) (map p [0..<k]) s)"
    using assms by (intro poll_prefix) auto
  also have "\<dots> = (Rejects e, fold (call_onProgress cb) (map p [0..<k]) s, Suc k)"
    using assms(1,3) by (rule loop_stop_reject)
  finally show ?thesis .
qed

text \<open>The run \<open>run_blip\<close>, read through the theorem.\<close>

theorem pollAnalysis_fetch_failure_ends_run_witness:
  "pollAnalysis run_blip (Some record_payload) 150 [] = (Rejects ''Network Error'', [processing_payload 30], 2)"
proof -
  have "\<forall>i<1. run_blip i = Resolves (run_stuck i) \<and> in_progress (run_stuck i)"
    by (simp add: run_blip_def run_stuck_def in_progress_processing)
  moreover have "run_blip 1 = Rejects ''Network Error''" by (simp add: run_blip_def)
  ultimately show ?thesis
    using pollAnalysis_fetch_failure_ends_run[of 1 150 run_blip run_stuck "''Network Error''" "Some record_payload" "[]"]
    by (simp add: call_onProgress_def record_payload_def run_stuck_def)
qed

text \<open>
  Claim C4 as stated fails. In \<open>run_blip\<close> the second of 150 attempts fails in the
  transport and the third would have reported completion; the loop does not go on to it:
  two fetches are issued and the call rejects with the transport's error.
\<close>

theorem pollAnalysis_retry_counterexample:
  "run_blip 1 = Rejects ''Network Error'' \<and> run_blip 2 = Resolves complete_payload
   \<and> (1::int) + 1 < 150
   \<and> pollAnalysis run_blip (Some record_payload) 150 [] =
       (Rejects ''Network Error'', [processing_payload 30], 2)"
proof -
  have a: "pollAnalysis run_blip (Some record_payload) 150 [] =
        pollAnalysis_loop run_blip (Some record_payload) 150 (Suc 0) [processing_payload 30]"
    unfolding pollAnalysis_def
    by (subst pollAnalysis_loop.simps)
       (simp add: run_blip_def turn_in_progress in_progress_processing call_onProgress_def record_payload_def)
  have b: "pollAnalysis_loop run_blip (Some record_payload) 150 (Suc 0) [processing_payload 30] =
        (Rejects ''Network Error'', [processing_payload 30], Suc (Suc 0))"
    by (rule loop_stop_reject) (simp_all add: run_blip_def)
  show ?thesis unfolding a b by (simp add: run_blip_def)
qed

section \<open>Properties of the analysis session\<close>




section \<open>Properties of the selection handlers\<close>


lemma select_issued:
  assumes "truthy_id aid"
  shows "\<exists>p. select aid S a = (a\<lparr>selectedFile := Some (chosen S a), activeTab := ''details''\<rparr>, Some p)
             \<and> selected_by p = chosen S a"
  using assms by (cases S) (simp_all add: handleNodeClick_def handleRiskFileClick_def Let_def)

lemma chosen_select [simp]:
  "chosen S (a\<lparr>selectedFile := f, activeTab := t\<rparr>) = chosen S a"
  by (cases S) simp_all

lemma settle_resolves:
  "settle p (Resolves b) a =
     a\<lparr>blastRadius := Some b,
       highlightedNodes := node_id (selected_by p) # list_or (direct_dependents b) @ list_or (indirect_dependents b)\<rparr>"
  by (cases p) (simp_all add: handleNodeClick_resume_def handleRiskFileClick_resume_def)


text \<open>
  Claim C1, as the code has it. Two selections \<open>S1\<close> then \<open>S2\<close>, each of which issues its
  fetch, and the fetch of \<open>S2\<close> resolves before that of \<open>S1\<close>. The selected file is then
  that of \<open>S2\<close>, while the stored blast radius is the response to \<open>S1\<close> and the highlighted
  nodes are those of \<open>S1\<close>: each response is applied when it arrives, none is dropped.
\<close>

theorem responses_applied_in_arrival_order:
  assumes "truthy_id aid"
  shows "fst (fold app_step [Select aid S1, Select aid S2, Settles 1 (Resolves b2), Settles 0 (Resolves b1)] (a, [])) =
         a\<lparr>selectedFile := Some (chosen S2 a), activeTab := ''details'', blastRadius := Some b1,
           highlightedNodes := node_id (chosen S1 a) # list_or (direct_dependents b1) @ list_or (indirect_dependents b1)\<rparr>"
proof -
  obtain p1 where p1: "select aid S1 a = (a\<lparr>selectedFile := Some (chosen S1 a), activeTab := ''details''\<rparr>, Some p1)"
    and s1: "selected_by p1 = chosen S1 a"
    using select_issued[OF assms] by blast
  let ?a1 = "a\<lparr>selectedFile := Some (chosen S1 a), activeTab := ''details''\<rparr>"
  obtain p2 where p2: "select aid S2 ?a1 = (?a1\<lparr>selectedFile := Some (chosen S2 ?a1), activeTab := ''details''\<rparr>, Some p2)"
    using select_issued[OF assms] by blast
  show ?thesis
    by (simp add: p1 p2 settle_resolves s1)
qed

text \<open>
  A click on the risk entry of \<^verbatim>\<open>lib/core.py\<close>, then on the graph node of
  \<^verbatim>\<open>lib/util.py\<close>, whose response arrives first.
\<close>

theorem responses_applied_in_arrival_order_witness:
  "truthy_id (Some ''s1'')
   \<and> fst (fold app_step [Select (Some ''s1'') (RiskEntry risk_core), Select (Some ''s1'') (GraphNode node_util),
                         Settles 1 (Resolves blast_util), Settles 0 (Resolves blast_core)] (loaded_app, [])) =
     loaded_app\<lparr>selectedFile := Some node_util, activeTab := ''details'', blastRadius := Some blast_core,
                 highlightedNodes := [''lib/core.py'', ''app.py'', ''cli.py'']\<rparr>"
proof -
  have t: "truthy_id (Some ''s1'')" by (simp add: truthy_id_def)
  have c: "node_id (make_fileData risk_core (Some small_graph)) = ''lib/core.py''"
    by (simp add: make_fileData_def graph_nodes_def small_graph_def small_elements_def risk_core_def
        node_core_def node_util_def object_assign_def Let_def)
  show ?thesis
    using responses_applied_in_arrival_order[OF t, of "RiskEntry risk_core" "GraphNode node_util" blast_util blast_core loaded_app] t
    by (simp add: c list_or_def) (simp add: loaded_app_def c blast_core_def)
qed

text \<open>
  Claim C1 as stated fails. The node of \<^verbatim>\<open>lib/core.py\<close> is clicked, then the node of
  \<^verbatim>\<open>lib/util.py\<close>; the response for \<^verbatim>\<open>lib/util.py\<close> arrives first. In the end the
  selected file is \<^verbatim>\<open>lib/util.py\<close>, and the blast radius and the highlighted nodes are
  those of \<^verbatim>\<open>lib/core.py\<close>.
\<close>

theorem stale_response_counterexample:
  "fst (fold app_step [Select (Some ''s1'') (GraphNode node_core), Select (Some ''s1'') (GraphNode node_util),
                       Settles 1 (Resolves blast_util), Settles 0 (Resolves blast_core)] (loaded_app, [])) =
     loaded_app\<lparr>selectedFile := Some node_util, activeTab := ''details'', blastRadius := Some blast_core,
                 highlightedNodes := [''lib/core.py'', ''app.py'', ''cli.py'']\<rparr>
   \<and> blast_core \<noteq> blast_util \<and> node_id node_util \<noteq> ''lib/core.py''"
  by (simp add: handleNodeClick_def handleNodeClick_resume_def list_or_def)
     (simp add: node_core_def node_util_def blast_core_def blast_util_def)




text \<open>
  Claim C5, which the code breaks on the graph-node path. The risk list holds an entry for
  \<^verbatim>\<open>lib/core.py\<close> with a blast radius of 4, and the blast-radius fetch for that file
  rejects. After a click on the graph node of the file the stored blast radius is null;
  after a click on its risk entry it is the degraded result with \<^verbatim>\<open>total_affected\<close> 4 and
  empty dependent lists.
\<close>

theorem node_click_failure_not_degraded:
  "full_path node_core = file_path risk_core \<and> risk_core \<in> set (riskFiles loaded_app)
   \<and> blastRadius (fst (fold app_step [Select (Some ''s1'') (GraphNode node_core),
                                      Settles 0 (Rejects ''Network Error'')] (loaded_app, []))) = None
   \<and> blastRadius (fst (fold app_step [Select (Some ''s1'') (RiskEntry risk_core),
                                      Settles 0 (Rejects ''Network Error'')] (loaded_app, []))) =
       Some \<lparr>br_file_path = ''lib/core.py'', direct_dependents = Some [], indirect_dependents = Some [],
             total_affected = 4, br_risk_score = 87.3, br_risk_level = ''high''\<rparr>"
  by (simp add: handleNodeClick_def handleNodeClick_resume_def handleRiskFileClick_def
      handleRiskFileClick_resume_def truthy_id_def Let_def num_or0_def)
     (simp add: node_core_def risk_core_def loaded_app_def)

section \<open>Properties of the graph viewer\<close>















lemma mounted_viewer_eq:
  "mounted_viewer =
     \<lparr>cyRef = Some (cytoscape 0 small_elements ''cose-bilkent''), layout = ''cose-bilkent'',
      build_deps = Some (Some (0, small_graph), ''cose-bilkent'', Some 0), build_cleanup = True,
      highlight_deps = Some (0, []), constructed = 1, destroyed = 0, live = [0]\<rparr>"
  by (simp add: mounted_viewer_def commit_def initial_viewer_def small_props_def build_effect_def
      renderable_def small_graph_def small_elements_def highlight_effect_def apply_highlight_def
      cytoscape_def removeClass_n_def removeClass_e_def Let_def)

lemma renderable_small: "renderable small_props = Some small_elements"
  by (simp add: renderable_def small_props_def small_graph_def small_elements_def)


text \<open>
  Claim C6, which the code breaks. On a mounted component that holds an engine built from
  the current props, \<^verbatim>\<open>handleChangeLayout\<close> with another layout name runs that layout, with
  its configured parameters, on the existing instance and neither constructs nor destroys.
  But it also sets the \<^verbatim>\<open>layout\<close> state, which is a dependency of the build effect: the
  render that follows destroys the instance and constructs a new one.
\<close>

theorem layout_switch_rebuilds:
  assumes "cyRef v = Some cy" and "build_cleanup v"
    and "build_deps v = Some (p_graphData props, layout v, p_onNodeClick props)"
    and "newLayout \<noteq> layout v" and "renderable props = Some els"
  shows "cyRef (handleChangeLayout newLayout v) =
           Some (cy_layout_run (newLayout, getLayoutConfig newLayout) cy)
       \<and> constructed (handleChangeLayout newLayout v) = constructed v
       \<and> destroyed (handleChangeLayout newLayout v) = destroyed v
       \<and> constructed (commit props (handleChangeLayout newLayout v)) = Suc (constructed v)
       \<and> destroyed (commit props (handleChangeLayout newLayout v)) = Suc (destroyed v)
       \<and> map_option inst_id (cyRef (commit props (handleChangeLayout newLayout v))) = Some (constructed v)"
  using assms
  by (auto simp: handleChangeLayout_def commit_def Let_def build_effect_def build_effect_cleanup_def
      highlight_effect_def cytoscape_def apply_highlight_def split: option.splits)

text \<open>
  The switch from \<^verbatim>\<open>cose-bilkent\<close> to \<^verbatim>\<open>grid\<close> on the viewer mounted on the small graph.
\<close>

theorem layout_switch_rebuilds_witness:
  "constructed mounted_viewer = 1 \<and> destroyed mounted_viewer = 0
   \<and> constructed (commit small_props (handleChangeLayout ''grid'' mounted_viewer)) = 2
   \<and> destroyed (commit small_props (handleChangeLayout ''grid'' mounted_viewer)) = 1"
proof -
  have h: "cyRef mounted_viewer = Some (cytoscape 0 small_elements ''cose-bilkent'')"
    "build_cleanup mounted_viewer"
    "build_deps mounted_viewer = Some (p_graphData small_props, layout mounted_viewer, p_onNodeClick small_props)"
    "''grid'' \<noteq> layout mounted_viewer"
    by (simp_all add: mounted_viewer_eq small_props_def)
  have c: "constructed mounted_viewer = 1" "destroyed mounted_viewer = 0"
    by (simp_all add: mounted_viewer_eq)
  show ?thesis
    using layout_switch_rebuilds[OF h renderable_small] c by simp
qed











text \<open>
  Claim C10. On an engine with the zoom range 0.1 to 3, which is the range the component
  constructs its engines with, zoom-in sets the zoom level to 1.2 times and zoom-out to 0.8
  times the current level whenever that lies in the range. A zoom-in followed by a zoom-out,
  neither of them clamped, leaves 0.96 times the level, which is not the level it started
  from.
\<close>

theorem zoom_in_then_out:
  assumes "cyRef v = Some cy" and "minZoom cy = 0.1" and "maxZoom cy = 3"
  shows "(0.1 \<le> zoom cy * 1.2 \<and> zoom cy * 1.2 \<le> 3 \<longrightarrow>
            cyRef (handleZoomIn v) = Some (cy\<lparr>zoom := zoom cy * 1.2\<rparr>))
       \<and> (0.1 \<le> zoom cy * 0.8 \<and> zoom cy * 0.8 \<le> 3 \<longrightarrow>
            cyRef (handleZoomOut v) = Some (cy\<lparr>zoom := zoom cy * 0.8\<rparr>))
       \<and> (0.1 \<le> zoom cy * 1.2 \<and> zoom cy * 1.2 \<le> 3 \<and> 0.1 \<le> zoom cy * 1.2 * 0.8 \<longrightarrow>
            cyRef (handleZoomOut (handleZoomIn v)) = Some (cy\<lparr>zoom := zoom cy * 0.96\<rparr>)
            \<and> zoom cy * 0.96 \<noteq> zoom cy)
       \<and> minZoom (cytoscape n els l) = 0.1 \<and> maxZoom (cytoscape n els l) = 3"
  using assms
  by (auto simp: handleZoomIn_def handleZoomOut_def cy_zoom_def cytoscape_def)

text \<open>
  The freshly mounted viewer, at zoom level 1.
\<close>

theorem zoom_in_then_out_witness:
  "cyRef (handleZoomIn mounted_viewer) = Some ((cytoscape 0 small_elements ''cose-bilkent'')\<lparr>zoom := 1.2\<rparr>)
   \<and> cyRef (handleZoomOut mounted_viewer) = Some ((cytoscape 0 small_elements ''cose-bilkent'')\<lparr>zoom := 0.8\<rparr>)
   \<and> cyRef (handleZoomOut (handleZoomIn mounted_viewer)) =
       Some ((cytoscape 0 small_elements ''cose-bilkent'')\<lparr>zoom := 0.96\<rparr>)"
proof -
  have c: "cyRef mounted_viewer = Some (cytoscape 0 small_elements ''cose-bilkent'')"
    by (simp add: mounted_viewer_eq)
  have z: "zoom (cytoscape 0 small_elements ''cose-bilkent'') = 1"
    "minZoom (cytoscape 0 small_elements ''cose-bilkent'') = 0.1"
    "maxZoom (cytoscape 0 small_elements ''cose-bilkent'') = 3"
    by (simp_all add: cytoscape_def)
  show ?thesis
    using zoom_in_then_out[OF c z(2,3)] by (simp add: z(1))
qed

end
